theory Spec2Isabelle
  imports Complex_Main "HOL-Library.Word"
begin

section \<open>The validator of the SolarOracleWalkman contract\<close>

text \<open>
  The contract is written in Solidity 0.8: \<open>uint256\<close> arithmetic is checked, an overflow or
  an underflow reverts instead of wrapping. The values are modelled as natural numbers; the
  lemma \<open>validate_no_overflow\<close> below shows that no intermediate value of the validator
  reaches \<open>2 ^ 256\<close>, and every subtraction of the source is guarded by a comparison, so the
  model and the checked arithmetic agree. A \<open>uint256[7]\<close> is a list of length 7.
\<close>

type_synonym uint256 = nat

definition MIN_VALUE :: uint256 where "MIN_VALUE = 10"
definition MAX_VALUE :: uint256 where "MAX_VALUE = 3000"
definition MIN_VARIANCE :: uint256 where "MIN_VARIANCE = 50"
definition MAX_VARIANCE :: uint256 where "MAX_VARIANCE = 1200"
definition MAX_RANGE :: uint256 where "MAX_RANGE = 2500"
definition MAX_ALTERNATIONS :: uint256 where "MAX_ALTERNATIONS = 3"
definition MIN_UNIQUE_VALUES :: uint256 where "MIN_UNIQUE_VALUES = 4"

text \<open>The ternary \<open>a > b ? a - b : b - a\<close> that the source writes out twice.\<close>

definition absdiff :: "uint256 \<Rightarrow> uint256 \<Rightarrow> uint256" where
  "absdiff a b = (if a > b then a - b else b - a)"

text \<open>First loop: the early return on the first value outside the range.\<close>

fun out_of_range_from :: "uint256 list \<Rightarrow> nat list \<Rightarrow> bool" where
  "out_of_range_from iv7Data [] = False"
| "out_of_range_from iv7Data (i # is) =
     (if iv7Data ! i < MIN_VALUE \<or> iv7Data ! i > MAX_VALUE then True
      else out_of_range_from iv7Data is)"

definition out_of_range :: "uint256 list \<Rightarrow> bool" where
  "out_of_range iv7Data = out_of_range_from iv7Data [0..<7]"

text \<open>Second loop: \<open>sum\<close>, \<open>min\<close> and \<open>max\<close>, the last two starting at element 0.\<close>

definition stats_step :: "uint256 list \<Rightarrow> nat \<Rightarrow> uint256 \<times> uint256 \<times> uint256 \<Rightarrow> uint256 \<times> uint256 \<times> uint256" where
  "stats_step iv7Data i acc =
     (case acc of (sm, mn, mx) \<Rightarrow>
        (sm + iv7Data ! i,
         if iv7Data ! i < mn then iv7Data ! i else mn,
         if iv7Data ! i > mx then iv7Data ! i else mx))"

definition stats :: "uint256 list \<Rightarrow> uint256 \<times> uint256 \<times> uint256" where
  "stats iv7Data = fold (stats_step iv7Data) [0..<7] (0, iv7Data ! 0, iv7Data ! 0)"

definition mean_of :: "uint256 list \<Rightarrow> uint256" where
  "mean_of iv7Data = (case stats iv7Data of (sm, mn, mx) \<Rightarrow> sm div 7)"

definition range_of :: "uint256 list \<Rightarrow> uint256" where
  "range_of iv7Data = (case stats iv7Data of (sm, mn, mx) \<Rightarrow> mx - mn)"

text \<open>Third loop: the sum of the squared distances to the truncated mean.\<close>

definition varianceSum :: "uint256 list \<Rightarrow> uint256 \<Rightarrow> uint256" where
  "varianceSum iv7Data mean =
     fold (\<lambda>i acc. let diff = absdiff (iv7Data ! i) mean in acc + diff * diff) [0..<7] 0"

definition variance_of :: "uint256 list \<Rightarrow> uint256" where
  "variance_of iv7Data = varianceSum iv7Data (mean_of iv7Data) div 7"

text \<open>Fourth loop: the two monotonicity flags over the six adjacent pairs.\<close>

definition mono_step :: "uint256 list \<Rightarrow> nat \<Rightarrow> bool \<times> bool \<Rightarrow> bool \<times> bool" where
  "mono_step iv7Data i acc =
     (case acc of (isIncreasing, isDecreasing) \<Rightarrow>
        (if iv7Data ! i > iv7Data ! (i + 1) then False else isIncreasing,
         if iv7Data ! i < iv7Data ! (i + 1) then False else isDecreasing))"

definition mono_flags :: "uint256 list \<Rightarrow> bool \<times> bool" where
  "mono_flags iv7Data = fold (mono_step iv7Data) [0..<6] (True, True)"

text \<open>Fifth loop: the count of distinct values, with the \<open>counted\<close> marks of the source.\<close>

definition mark_step :: "uint256 list \<Rightarrow> nat \<Rightarrow> nat \<Rightarrow> bool list \<Rightarrow> bool list" where
  "mark_step iv7Data i j counted =
     (if iv7Data ! i = iv7Data ! j then counted[j := True] else counted)"

definition unique_step :: "uint256 list \<Rightarrow> nat \<Rightarrow> uint256 \<times> bool list \<Rightarrow> uint256 \<times> bool list" where
  "unique_step iv7Data i acc =
     (case acc of (uniqueCount, counted) \<Rightarrow>
        if \<not> counted ! i
        then (uniqueCount + 1, fold (mark_step iv7Data i) [i + 1..<7] counted)
        else (uniqueCount, counted))"

definition uniqueCount_of :: "uint256 list \<Rightarrow> uint256" where
  "uniqueCount_of iv7Data = fst (fold (unique_step iv7Data) [0..<7] (0, replicate 7 False))"

text \<open>Sixth loop: the adjacent pairs more than 1500 apart.\<close>

definition alternations_of :: "uint256 list \<Rightarrow> uint256" where
  "alternations_of iv7Data =
     fold (\<lambda>i alternations.
             let diff = absdiff (iv7Data ! i) (iv7Data ! (i + 1))
             in if diff > 1500 then alternations + 1 else alternations) [0..<6] 0"

definition validateIV7Data :: "uint256 list \<Rightarrow> bool \<times> string" where
  "validateIV7Data iv7Data =
     (if out_of_range iv7Data then (False, ''Value outside valid range'')
      else if range_of iv7Data > MAX_RANGE then (False, ''Value range too wide'')
      else if variance_of iv7Data < MIN_VARIANCE
        then (False, ''Variance too low - values too similar'')
      else if variance_of iv7Data > MAX_VARIANCE
        then (False, ''Variance too high - values too scattered'')
      else if fst (mono_flags iv7Data)
        then (False, ''Monotonic increasing pattern detected'')
      else if snd (mono_flags iv7Data)
        then (False, ''Monotonic decreasing pattern detected'')
      else if uniqueCount_of iv7Data < MIN_UNIQUE_VALUES
        then (False, ''Too many duplicate values'')
      else if alternations_of iv7Data > MAX_ALTERNATIONS
        then (False, ''Too many extreme value alternations'')
      else (True, ''''))"


text \<open>
  The spec's words for the variance, to be compared with the loops above: the mean of the
  squared deviations from the mean, both divisions truncated.
\<close>

definition population_variance :: "uint256 list \<Rightarrow> int" where
  "population_variance xs =
     (let n = int (length xs);
          m = (\<Sum>x\<leftarrow>xs. int x) div n
      in (\<Sum>x\<leftarrow>xs. (int x - m)\<^sup>2) div n)"

text \<open>
  The source stores every value scaled by 1000 (\<open>uint256[7] iv7Data; // Scaled by 1000 for
  precision\<close>): a stored \<open>x\<close> stands for \<open>x / 1000\<close> units. Squared deviations, and so
  the variance, of stored values are therefore scaled by \<open>1000 * 1000\<close>: a stored variance
  \<open>v\<close> is \<open>v / 1000000\<close> in real units.
\<close>

definition variance_units :: "uint256 \<Rightarrow> real" where
  "variance_units v = real v / 1000000"

section \<open>Contract storage and operations\<close>

type_synonym bytes32 = "256 word"
type_synonym address = "160 word"
type_synonym bytes = "8 word list"

record IVRecord =
  identity :: string
  pubkey :: bytes32
  ivHash :: bytes32
  iv7Data :: "uint256 list"
  timestamp :: uint256
  blockNumber :: uint256
  isValid :: bool

text \<open>
  The struct \<open>IVReport\<close> has the first five fields of \<open>IVRecord\<close> under the same names;
  here they carry the prefix \<open>report_\<close>.
\<close>

record IVReport =
  report_identity :: string
  report_pubkey :: bytes32
  report_ivHash :: bytes32
  report_iv7Data :: "uint256 list"
  report_timestamp :: uint256

text \<open>
  The storage of the contract. A Solidity mapping is total: a key never written reads as
  the zero value of its type. \<open>owner\<close> is the slot of the inherited \<open>Ownable\<close>.
\<close>

record storage =
  owner :: address
  oracleSigner :: address
  maxStaleness :: uint256
  usedIvHash :: "bytes32 \<Rightarrow> bool"
  ivRecords :: "bytes32 \<Rightarrow> IVRecord"
  userRecords :: "address \<Rightarrow> bytes32 list"
  totalRecords :: uint256
  allRecords :: "bytes32 list"

definition zeroRecord :: IVRecord where
  "zeroRecord = \<lparr>identity = [], pubkey = 0, ivHash = 0, iv7Data = replicate 7 0,
                  timestamp = 0, blockNumber = 0, isValid = False\<rparr>"

text \<open>
  What the contract takes from outside its source: the EIP-712 digest of a report
  (\<open>_hashTypedDataV4\<close> of the keccak of the encoded fields), \<open>ECDSA.recover\<close> (which
  reverts on a malformed signature: \<open>None\<close>), and the keccak of the packed
  \<open>(ivHash, block.number, block.timestamp, msg.sender)\<close> that becomes the transaction id.
\<close>

record evm =
  hashTypedDataV4 :: "IVReport \<Rightarrow> bytes32"
  recover :: "bytes32 \<Rightarrow> bytes \<Rightarrow> address option"
  keccak_txId :: "bytes32 \<Rightarrow> uint256 \<Rightarrow> uint256 \<Rightarrow> address \<Rightarrow> bytes32"

record call =
  block_timestamp :: uint256
  block_number :: uint256
  msg_sender :: address

datatype error = Revert string | RecoverReverted

definition constructor :: "address \<Rightarrow> address \<Rightarrow> storage" where
  "constructor signer deployer =
     \<lparr>owner = deployer, oracleSigner = signer, maxStaleness = 600,
      usedIvHash = (\<lambda>h. False), ivRecords = (\<lambda>t. zeroRecord),
      userRecords = (\<lambda>a. []), totalRecords = 0, allRecords = []\<rparr>"

text \<open>The condition of the first \<open>require\<close>; \<open>&&\<close> guards the subtraction.\<close>

definition fresh :: "call \<Rightarrow> IVReport \<Rightarrow> storage \<Rightarrow> bool" where
  "fresh c report s \<longleftrightarrow>
     block_timestamp c \<ge> report_timestamp report \<and>
     block_timestamp c - report_timestamp report \<le> maxStaleness s"

text \<open>
  A revert undoes every effect of the call, the \<open>ValidationFailed\<close> event included, so a
  failed call is its error alone; a successful one returns the transaction id and the
  new storage. Events are not modelled.
\<close>

definition verifyAndStore ::
  "evm \<Rightarrow> call \<Rightarrow> IVReport \<Rightarrow> bytes \<Rightarrow> storage \<Rightarrow> error + (bytes32 \<times> storage)" where
  "verifyAndStore e c report signature s =
     (if \<not> fresh c report s then Inl (Revert ''Report too stale'')
      else if usedIvHash s (report_ivHash report) then Inl (Revert ''IV hash already used'')
      else case validateIV7Data (report_iv7Data report) of (valid, reason) \<Rightarrow>
        if \<not> valid then Inl (Revert (''Validation failed: '' @ reason))
        else case recover e (hashTypedDataV4 e report) signature of
          None \<Rightarrow> Inl RecoverReverted
        | Some signer \<Rightarrow>
            if signer \<noteq> oracleSigner s then Inl (Revert ''Invalid oracle signature'')
            else
              let txId = keccak_txId e (report_ivHash report) (block_number c)
                           (block_timestamp c) (msg_sender c)
              in Inr (txId,
                   s\<lparr>usedIvHash := (usedIvHash s)(report_ivHash report := True),
                     ivRecords := (ivRecords s)(txId :=
                       \<lparr>identity = report_identity report,
                        pubkey = report_pubkey report,
                        ivHash = report_ivHash report,
                        iv7Data = report_iv7Data report,
                        timestamp = report_timestamp report,
                        blockNumber = block_number c,
                        isValid = True\<rparr>),
                     userRecords := (userRecords s)(msg_sender c :=
                       userRecords s (msg_sender c) @ [txId]),
                     allRecords := allRecords s @ [txId],
                     totalRecords := totalRecords s + 1\<rparr>))"

text \<open>The loop of \<open>verifyChainIntegrity\<close> over the indices of \<open>allRecords\<close>.\<close>

definition integrity_step :: "storage \<Rightarrow> nat \<Rightarrow> uint256 \<Rightarrow> uint256" where
  "integrity_step s i invalidCount =
     (let txId = allRecords s ! i;
          record = ivRecords s txId;
          recordValid = fst (validateIV7Data (iv7Data record))
      in if \<not> recordValid then invalidCount + 1 else invalidCount)"

definition verifyChainIntegrity :: "storage \<Rightarrow> bool \<times> uint256 \<times> string" where
  "verifyChainIntegrity s =
     (let invalidCount = fold (integrity_step s) [0..<length (allRecords s)] 0
      in if invalidCount > 0
         then (False, invalidCount, ''Invalid voiceprints detected in chain'')
         else (True, 0, ''All voiceprints valid''))"

text \<open>\<open>getRecord\<close> has no \<open>require\<close>: it returns the mapping's entry.\<close>

definition getRecord :: "storage \<Rightarrow> bytes32 \<Rightarrow> error + IVRecord" where
  "getRecord s txId = Inr (ivRecords s txId)"

definition getUserRecords :: "storage \<Rightarrow> address \<Rightarrow> bytes32 list" where
  "getUserRecords s user = userRecords s user"

definition onlyOwner :: "call \<Rightarrow> storage \<Rightarrow> bool" where
  "onlyOwner c s \<longleftrightarrow> owner s = msg_sender c"

definition updateOracleSigner :: "call \<Rightarrow> address \<Rightarrow> storage \<Rightarrow> error + storage" where
  "updateOracleSigner c newSigner s =
     (if \<not> onlyOwner c s then Inl (Revert ''Ownable: caller is not the owner'')
      else Inr (s\<lparr>oracleSigner := newSigner\<rparr>))"

definition updateMaxStaleness :: "call \<Rightarrow> uint256 \<Rightarrow> storage \<Rightarrow> error + storage" where
  "updateMaxStaleness c newStaleness s =
     (if \<not> onlyOwner c s then Inl (Revert ''Ownable: caller is not the owner'')
      else Inr (s\<lparr>maxStaleness := newStaleness\<rparr>))"

text \<open>
  The transactions the contract accepts. The external functions that \<open>Ownable\<close> itself
  brings are not in the source; they write the \<open>owner\<close> slot only, and \<open>SetOwner\<close>
  stands for all of them: any change of the owner, by anyone.
\<close>

datatype operation =
    VerifyAndStore IVReport bytes
  | UpdateOracleSigner address
  | UpdateMaxStaleness uint256
  | SetOwner address

fun exec :: "evm \<Rightarrow> call \<Rightarrow> operation \<Rightarrow> storage \<Rightarrow> error + storage" where
  "exec e c (VerifyAndStore report signature) s =
     (case verifyAndStore e c report signature s of
        Inl err \<Rightarrow> Inl err
      | Inr (txId, s') \<Rightarrow> Inr s')"
| "exec e c (UpdateOracleSigner newSigner) s = updateOracleSigner c newSigner s"
| "exec e c (UpdateMaxStaleness newStaleness) s = updateMaxStaleness c newStaleness s"
| "exec e c (SetOwner newOwner) s = Inr (s\<lparr>owner := newOwner\<rparr>)"

text \<open>A transaction that reverts leaves the storage as it was.\<close>

definition transact :: "evm \<Rightarrow> call \<times> operation \<Rightarrow> storage \<Rightarrow> storage" where
  "transact e tx s = (case exec e (fst tx) (snd tx) s of Inl err \<Rightarrow> s | Inr s' \<Rightarrow> s')"

definition run :: "evm \<Rightarrow> (call \<times> operation) list \<Rightarrow> storage \<Rightarrow> storage" where
  "run e txs s = fold (transact e) txs s"

text \<open>
  A stand-in for the hashing and the signature scheme, for concrete runs only: the first
  byte of a signature names its signer, and a transaction id is the report's hash plus
  the block number.
\<close>

definition demo_evm :: evm where
  "demo_evm = \<lparr>hashTypedDataV4 = report_ivHash,
               recover = (\<lambda>digest signature.
                 case signature of [] \<Rightarrow> None | b # bs \<Rightarrow> Some (ucast b)),
               keccak_txId = (\<lambda>h n t a. h + of_nat n)\<rparr>"

text \<open>The three vectors of \<open>scripts/test-contract.js\<close>.\<close>

definition generateFake7DVoiceprint :: "uint256 list" where
  "generateFake7DVoiceprint = [1000, 1020, 980, 1015, 985, 1025, 990]"

definition generateBadVoiceprint :: "uint256 list" where
  "generateBadVoiceprint = [50, 3500, 10, 4000, 80, 5000, 30]"

definition generateMonotonicVoiceprint :: "uint256 list" where
  "generateMonotonicVoiceprint = [100, 200, 300, 400, 500, 600, 700]"

definition demo_report :: "bytes32 \<Rightarrow> uint256 list \<Rightarrow> uint256 \<Rightarrow> IVReport" where
  "demo_report h iv t =
     \<lparr>report_identity = ''test_user_1'', report_pubkey = h + 56, report_ivHash = h,
      report_iv7Data = iv, report_timestamp = t\<rparr>"

definition demo_call :: "uint256 \<Rightarrow> uint256 \<Rightarrow> call" where
  "demo_call t n = \<lparr>block_timestamp = t, block_number = n, msg_sender = 5\<rparr>"

text \<open>
  Two reports stored one after the other on a fresh deployment whose oracle signer is
  address 1: the ledger then lists the transaction ids 71 and 73.
\<close>

definition demo_ledger :: storage where
  "demo_ledger =
     run demo_evm
       [(demo_call 1000 50, VerifyAndStore (demo_report 21 generateFake7DVoiceprint 990) [1]),
        (demo_call 1010 51, VerifyAndStore (demo_report 22 generateFake7DVoiceprint 1000) [1])]
       (constructor 1 2)"

section \<open>Properties of the validator\<close>

lemma upt7: "[0..<7] = [0,1,2,3,4,5,6]"
  by (simp add: upt_conv_Cons)

lemma upt6: "[0..<6] = [0,1,2,3,4,5]"
  by (simp add: upt_conv_Cons)

lemma out_of_range_from_iff:
  "out_of_range_from iv is \<longleftrightarrow> (\<exists>i\<in>set is. iv ! i < MIN_VALUE \<or> iv ! i > MAX_VALUE)"
  by (induction "is") auto

lemma out_of_range_iff:
  "out_of_range iv \<longleftrightarrow> (\<exists>i<7. iv ! i < MIN_VALUE \<or> iv ! i > MAX_VALUE)"
  by (auto simp: out_of_range_def out_of_range_from_iff)

lemma varianceSum_fold_mono:
  "acc \<le> fold (\<lambda>i acc. let diff = absdiff (iv ! i) m in acc + diff * diff) is acc"
proof (induction "is" arbitrary: acc)
  case Nil
  show ?case by simp
next
  case (Cons i "is")
  have "acc \<le> acc + absdiff (iv ! i) m * absdiff (iv ! i) m" by simp
  also have "\<dots> \<le> fold (\<lambda>i acc. let diff = absdiff (iv ! i) m in acc + diff * diff) is
                      (acc + absdiff (iv ! i) m * absdiff (iv ! i) m)"
    by (rule Cons.IH)
  finally show ?case by (simp add: Let_def)
qed

lemma varianceSum_fold_member:
  "i \<in> set is \<Longrightarrow> absdiff (iv ! i) m * absdiff (iv ! i) m
     \<le> fold (\<lambda>i acc. let diff = absdiff (iv ! i) m in acc + diff * diff) is acc"
proof (induction "is" arbitrary: acc)
  case Nil
  then show ?case by simp
next
  case (Cons j "is")
  show ?case
  proof (cases "i = j")
    case True
    have "absdiff (iv ! j) m * absdiff (iv ! j) m \<le> acc + absdiff (iv ! j) m * absdiff (iv ! j) m"
      by simp
    also have "\<dots> \<le> fold (\<lambda>i acc. let diff = absdiff (iv ! i) m in acc + diff * diff) is
                      (acc + absdiff (iv ! j) m * absdiff (iv ! j) m)"
      by (rule varianceSum_fold_mono)
    finally show ?thesis using True by (simp add: Let_def)
  next
    case False
    with Cons.prems have "i \<in> set is" by simp
    from Cons.IH [OF this] show ?thesis by (simp add: Let_def)
  qed
qed

lemma deviation_sq_le_varianceSum:
  "i < 7 \<Longrightarrow> absdiff (iv ! i) m * absdiff (iv ! i) m \<le> varianceSum iv m"
  unfolding varianceSum_def by (rule varianceSum_fold_member) simp

lemma sq_le_8406: "(d::nat) * d \<le> 8406 \<Longrightarrow> d \<le> 91"
proof (rule ccontr)
  assume le: "d * d \<le> 8406" and "\<not> d \<le> 91"
  then have "92 \<le> d" by simp
  then have "92 * 92 \<le> d * d" by (intro mult_le_mono)
  with le show False by simp
qed

lemma deviation_le_91:
  assumes "variance_of iv \<le> MAX_VARIANCE" and "i < 7"
  shows "absdiff (iv ! i) (mean_of iv) \<le> 91"
proof -
  from assms(1) have "varianceSum iv (mean_of iv) \<le> 8406"
    by (simp add: variance_of_def MAX_VARIANCE_def)
  with deviation_sq_le_varianceSum [OF assms(2), of iv "mean_of iv"] show ?thesis
    by (intro sq_le_8406) simp
qed

lemma absdiff_triangle: "absdiff a m \<le> k \<Longrightarrow> absdiff b m \<le> k \<Longrightarrow> absdiff a b \<le> 2 * k"
  by (auto simp: absdiff_def split: if_splits)

lemma adjacent_le_182:
  assumes "variance_of iv \<le> MAX_VARIANCE" and "i < 6"
  shows "absdiff (iv ! i) (iv ! (i + 1)) \<le> 182"
proof -
  have "absdiff (iv ! i) (mean_of iv) \<le> 91" "absdiff (iv ! (i + 1)) (mean_of iv) \<le> 91"
    using assms by (auto intro: deviation_le_91)
  from absdiff_triangle [OF this] show ?thesis by simp
qed

lemma alternations_fold_none:
  "\<forall>i\<in>set is. absdiff (iv ! i) (iv ! (i + 1)) \<le> 1500 \<Longrightarrow>
   fold (\<lambda>i alternations.
           let diff = absdiff (iv ! i) (iv ! (i + 1))
           in if diff > 1500 then alternations + 1 else alternations) is acc = acc"
  by (induction "is" arbitrary: acc) (auto simp: Let_def)

lemma alternations_zero:
  assumes "variance_of iv \<le> MAX_VARIANCE"
  shows "alternations_of iv = 0"
  unfolding alternations_of_def
proof (rule alternations_fold_none)
  show "\<forall>i\<in>set [0..<6]. absdiff (iv ! i) (iv ! (i + 1)) \<le> 1500"
  proof
    fix i assume "i \<in> set [0..<6]"
    then have "i < 6" by simp
    from adjacent_le_182 [OF assms this] show "absdiff (iv ! i) (iv ! (i + 1)) \<le> 1500" by simp
  qed
qed

lemma stats_fold_sum:
  "fst (fold (stats_step iv) is acc) = fst acc + sum_list (map ((!) iv) is)"
  by (induction "is" arbitrary: acc) (auto simp: stats_step_def split: prod.splits)

lemma stats_sum: "length iv = 7 \<Longrightarrow> fst (stats iv) = sum_list iv"
proof -
  assume len: "length iv = 7"
  have "fst (stats iv) = sum_list (map ((!) iv) [0..<7])"
    by (simp add: stats_def stats_fold_sum)
  also have "map ((!) iv) [0..<7] = iv"
    using map_nth [of iv] len by simp
  finally show ?thesis .
qed

lemma mean_of_sum_list: "length iv = 7 \<Longrightarrow> mean_of iv = sum_list iv div 7"
  using stats_sum [of iv] by (auto simp: mean_of_def split: prod.splits)

lemma varianceSum_fold_sum:
  "fold (\<lambda>i acc. let diff = absdiff (iv ! i) m in acc + diff * diff) is acc
     = acc + sum_list (map (\<lambda>i. absdiff (iv ! i) m * absdiff (iv ! i) m) is)"
  by (induction "is" arbitrary: acc) (auto simp: Let_def)

lemma varianceSum_sum_list:
  assumes "length iv = 7"
  shows "varianceSum iv m = sum_list (map (\<lambda>x. absdiff x m * absdiff x m) iv)"
proof -
  have "varianceSum iv m = sum_list (map ((\<lambda>x. absdiff x m * absdiff x m) \<circ> (!) iv) [0..<7])"
    by (simp add: varianceSum_def varianceSum_fold_sum comp_def)
  also have "\<dots> = sum_list (map (\<lambda>x. absdiff x m * absdiff x m) (map ((!) iv) [0..<7]))"
    by (simp only: map_map)
  also have "map ((!) iv) [0..<7] = iv"
    using map_nth [of iv] assms by simp
  finally show ?thesis .
qed

lemma int_absdiff_sq: "int (absdiff x m * absdiff x m) = (int x - int m)\<^sup>2"
  by (simp add: absdiff_def power2_eq_square algebra_simps of_nat_diff)

lemma int_sum_list: "int (sum_list xs) = (\<Sum>x\<leftarrow>xs. int x)"
  by (induction xs) auto

lemma variance_of_population:
  assumes "length iv = 7"
  shows "int (variance_of iv) = population_variance iv"
proof -
  let ?m = "mean_of iv"
  have m: "int ?m = (\<Sum>x\<leftarrow>iv. int x) div 7"
    by (simp add: mean_of_sum_list [OF assms] zdiv_int int_sum_list)
  have "int (varianceSum iv ?m) = (\<Sum>x\<leftarrow>iv. int (absdiff x ?m * absdiff x ?m))"
    by (simp only: varianceSum_sum_list [OF assms] int_sum_list map_map comp_def)
  also have "\<dots> = (\<Sum>x\<leftarrow>iv. (int x - int ?m)\<^sup>2)"
    by (simp only: int_absdiff_sq)
  finally have "int (variance_of iv) = (\<Sum>x\<leftarrow>iv. (int x - int ?m)\<^sup>2) div 7"
    by (simp add: variance_of_def zdiv_int)
  then show ?thesis
    by (simp add: population_variance_def assms m Let_def)
qed

lemma variance_units_bounds:
  "MIN_VARIANCE \<le> v \<and> v \<le> MAX_VARIANCE
     \<longleftrightarrow> 5 / 100000 \<le> variance_units v \<and> variance_units v \<le> 12 / 10000"
  by (simp add: variance_units_def MIN_VARIANCE_def MAX_VARIANCE_def field_simps)

lemma validate_7: "validateIV7Data [1000, 1020, 980, 1015, 985, 1025, 990] = (True, [])"
  by (simp add: validateIV7Data_def out_of_range_def upt7 upt6 MIN_VALUE_def MAX_VALUE_def
      range_of_def stats_def stats_step_def MAX_RANGE_def variance_of_def varianceSum_def mean_of_def
      absdiff_def MIN_VARIANCE_def MAX_VARIANCE_def mono_flags_def mono_step_def
      uniqueCount_of_def unique_step_def mark_step_def MIN_UNIQUE_VALUES_def
      alternations_of_def MAX_ALTERNATIONS_def upt_conv_Cons)

lemma facts_mono: "\<not> out_of_range [100, 200, 300, 400, 500, 600, 700]"
   "range_of [100, 200, 300, 400, 500, 600, 700] = 600"
   "variance_of [100, 200, 300, 400, 500, 600, 700] = 40000"
   "mono_flags [100, 200, 300, 400, 500, 600, 700] = (True, False)"
  by (simp_all add: out_of_range_def upt7 upt6 MIN_VALUE_def MAX_VALUE_def
      range_of_def stats_def stats_step_def variance_of_def varianceSum_def mean_of_def
      absdiff_def mono_flags_def mono_step_def)

lemma sum_list_map_bound:
  "(\<And>x. x \<in> set xs \<Longrightarrow> f x \<le> (k::nat)) \<Longrightarrow> sum_list (map f xs) \<le> length xs * k"
proof (induction xs)
  case Nil
  show ?case by simp
next
  case (Cons x xs)
  have "f x \<le> k" by (rule Cons.prems) simp
  moreover have "sum_list (map f xs) \<le> length xs * k"
    by (rule Cons.IH) (simp add: Cons.prems)
  ultimately show ?case by simp
qed

lemma unique_fold_bound: "fst (fold (unique_step iv) is acc) \<le> fst acc + length is"
proof (induction "is" arbitrary: acc)
  case Nil
  show ?case by simp
next
  case (Cons i "is")
  have "fst (unique_step iv i acc) \<le> fst acc + 1"
    by (simp add: unique_step_def split: prod.splits)
  with Cons.IH [of "unique_step iv i acc"] show ?case by simp
qed

lemma alternations_fold_bound:
  "fold (\<lambda>i alternations.
           let diff = absdiff (iv ! i) (iv ! (i + 1))
           in if diff > 1500 then alternations + 1 else alternations) is acc \<le> acc + length is"
proof (induction "is" arbitrary: acc)
  case Nil
  show ?case by simp
next
  case (Cons i "is")
  show ?case
    using Cons.IH [of "acc + 1"] Cons.IH [of acc] by (simp add: Let_def)
qed

lemma absdiff_le: "a \<le> k \<Longrightarrow> b \<le> k \<Longrightarrow> absdiff a b \<le> k"
  by (auto simp: absdiff_def)

text \<open>
  The largest values the validator computes on a vector that passes the range check. The
  accumulators only grow, so their intermediate values are bounded by the final ones.
\<close>

lemma validate_bounds:
  assumes len: "length iv = 7" and inr: "\<not> out_of_range iv"
  shows "fst (stats iv) \<le> 21000" and "varianceSum iv (mean_of iv) \<le> 63000000"
    and "uniqueCount_of iv \<le> 7" and "alternations_of iv \<le> 6"
proof -
  have el: "iv ! i \<le> 3000" if "i < 7" for i
  proof -
    from inr that have "\<not> iv ! i > MAX_VALUE" unfolding out_of_range_iff by blast
    then show ?thesis by (simp add: MAX_VALUE_def)
  qed
  have "sum_list (map ((!) iv) [0..<7]) \<le> length [0..<7] * 3000"
    by (rule sum_list_map_bound) (simp add: el)
  then show s: "fst (stats iv) \<le> 21000"
    by (simp add: stats_def stats_fold_sum)
  then have m: "mean_of iv \<le> 3000"
    by (auto simp: mean_of_def split: prod.splits)
  have "absdiff (iv ! i) (mean_of iv) * absdiff (iv ! i) (mean_of iv) \<le> 3000 * 3000"
    if "i < 7" for i
    by (intro mult_le_mono absdiff_le el m that)
  then have "sum_list (map (\<lambda>i. absdiff (iv ! i) (mean_of iv) * absdiff (iv ! i) (mean_of iv)) [0..<7])
      \<le> length [0..<7] * (3000 * 3000)"
    by (intro sum_list_map_bound) simp
  then show "varianceSum iv (mean_of iv) \<le> 63000000"
    by (simp add: varianceSum_def varianceSum_fold_sum)
  show "uniqueCount_of iv \<le> 7"
    using unique_fold_bound [of iv "[0..<7]" "(0, replicate 7 False)"]
    by (simp add: uniqueCount_of_def)
  show "alternations_of iv \<le> 6"
    using alternations_fold_bound [of iv "[0..<6]" 0]
    by (simp add: alternations_of_def)
qed

lemma validate_no_overflow:
  assumes "length iv = 7" and "\<not> out_of_range iv"
  shows "fst (stats iv) < 2 ^ 256" and "varianceSum iv (mean_of iv) < 2 ^ 256"
    and "uniqueCount_of iv < 2 ^ 256" and "alternations_of iv < 2 ^ 256"
proof -
  have big: "(63000000::nat) < 2 ^ 256" by simp
  show "fst (stats iv) < 2 ^ 256"
    using validate_bounds(1) [OF assms] big by linarith
  show "varianceSum iv (mean_of iv) < 2 ^ 256"
    using validate_bounds(2) [OF assms] big by linarith
  show "uniqueCount_of iv < 2 ^ 256"
    using validate_bounds(3) [OF assms] big by linarith
  show "alternations_of iv < 2 ^ 256"
    using validate_bounds(4) [OF assms] big by linarith
qed

lemma validate_monotonic:
  "validateIV7Data [100, 200, 300, 400, 500, 600, 700]
     = (False, ''Variance too high - values too scattered'')"
  by (simp add: facts_mono validateIV7Data_def MAX_RANGE_def MAX_VARIANCE_def MIN_VARIANCE_def)

lemma facts_fake:
  "\<not> out_of_range [1000, 1020, 980, 1015, 985, 1025, 990]"
  "range_of [1000, 1020, 980, 1015, 985, 1025, 990] = 45"
  "variance_of [1000, 1020, 980, 1015, 985, 1025, 990] = 277"
  by (simp_all add: out_of_range_def upt7 MIN_VALUE_def MAX_VALUE_def
      range_of_def stats_def stats_step_def variance_of_def varianceSum_def mean_of_def
      absdiff_def)

lemma facts_similar:
  "\<not> out_of_range [1000, 1000, 1000, 1000, 1001, 1002, 1003]"
  "range_of [1000, 1000, 1000, 1000, 1001, 1002, 1003] = 3"
  "variance_of [1000, 1000, 1000, 1000, 1001, 1002, 1003] = 2"
  by (simp_all add: out_of_range_def upt7 MIN_VALUE_def MAX_VALUE_def
      range_of_def stats_def stats_step_def variance_of_def varianceSum_def mean_of_def
      absdiff_def)

section \<open>Properties of the contract\<close>

subsection \<open>verifyAndStore\<close>

lemma verifyAndStore_success:
  assumes "verifyAndStore e c report signature s = Inr (txId, s')"
  shows "fresh c report s" and "\<not> usedIvHash s (report_ivHash report)"
    and "fst (validateIV7Data (report_iv7Data report))"
    and "recover e (hashTypedDataV4 e report) signature = Some (oracleSigner s)"
    and "txId = keccak_txId e (report_ivHash report) (block_number c) (block_timestamp c) (msg_sender c)"
    and "s' = s\<lparr>usedIvHash := (usedIvHash s)(report_ivHash report := True),
                 ivRecords := (ivRecords s)(txId :=
                   \<lparr>identity = report_identity report, pubkey = report_pubkey report,
                    ivHash = report_ivHash report, iv7Data = report_iv7Data report,
                    timestamp = report_timestamp report, blockNumber = block_number c,
                    isValid = True\<rparr>),
                 userRecords := (userRecords s)(msg_sender c := userRecords s (msg_sender c) @ [txId]),
                 allRecords := allRecords s @ [txId],
                 totalRecords := totalRecords s + 1\<rparr>"
  using assms
  by (auto simp: verifyAndStore_def Let_def split: if_splits prod.splits option.splits)

lemma transact_cases:
  assumes "transact e tx s = s'"
  obtains (unchanged) "s' = s"
  | (stored) report signature txId where
      "verifyAndStore e (fst tx) report signature s = Inr (txId, s')"
  | (signer) a where "s' = s\<lparr>oracleSigner := a\<rparr>"
  | (staleness) n where "s' = s\<lparr>maxStaleness := n\<rparr>"
  | (owner) a where "s' = s\<lparr>owner := a\<rparr>"
proof (cases "snd tx")
  case (VerifyAndStore report signature)
  show ?thesis
  proof (cases "verifyAndStore e (fst tx) report signature s")
    case (Inl err)
    with VerifyAndStore assms have "s' = s" by (simp add: transact_def)
    then show ?thesis by (rule unchanged)
  next
    case (Inr p)
    obtain txId s1 where p: "p = (txId, s1)" by (cases p)
    with Inr VerifyAndStore assms have "s' = s1" by (simp add: transact_def)
    with Inr p show ?thesis by (intro stored [of report signature txId]) simp
  qed
next
  case (UpdateOracleSigner a)
  with assms show ?thesis
    by (cases "onlyOwner (fst tx) s")
       (auto simp: transact_def updateOracleSigner_def intro: unchanged signer)
next
  case (UpdateMaxStaleness n)
  with assms show ?thesis
    by (cases "onlyOwner (fst tx) s")
       (auto simp: transact_def updateMaxStaleness_def intro: unchanged staleness)
next
  case (SetOwner a)
  with assms show ?thesis
    by (auto simp: transact_def intro: owner)
qed

lemma run_snoc: "run e (txs @ [tx]) s = transact e tx (run e txs s)"
  by (simp add: run_def)

lemma run_Nil: "run e [] s = s"
  by (simp add: run_def)

text \<open>A call of \<open>verifyAndStore\<close> that succeeds is the transaction that leads to its storage.\<close>

lemma transact_success:
  "verifyAndStore e c report signature s = Inr (txId, s') \<Longrightarrow>
   transact e (c, VerifyAndStore report signature) s = s'"
  by (simp add: transact_def)

text \<open>A used hash stays used.\<close>

lemma transact_usedIvHash: "usedIvHash s h \<Longrightarrow> usedIvHash (transact e tx s) h"
proof -
  assume u: "usedIvHash s h"
  obtain s' where s': "transact e tx s = s'" by simp
  from s' have "usedIvHash s' h"
  proof (cases rule: transact_cases)
    case (stored report signature txId)
    from verifyAndStore_success(6) [OF this] u show ?thesis by simp
  qed (use u in simp_all)
  with s' show ?thesis by simp
qed

lemma run_usedIvHash: "usedIvHash s h \<Longrightarrow> usedIvHash (run e txs s) h"
  by (induction txs rule: rev_induct) (simp_all add: run_Nil run_snoc transact_usedIvHash)

text \<open>Every listed transaction id holds a record with a validated vector and the valid flag.\<close>

lemma transact_valid:
  assumes "\<forall>t\<in>set (allRecords s). fst (validateIV7Data (iv7Data (ivRecords s t))) \<and> isValid (ivRecords s t)"
  shows "\<forall>t\<in>set (allRecords (transact e tx s)).
           fst (validateIV7Data (iv7Data (ivRecords (transact e tx s) t))) \<and> isValid (ivRecords (transact e tx s) t)"
proof -
  obtain s' where s': "transact e tx s = s'" by simp
  from s' have "\<forall>t\<in>set (allRecords s'). fst (validateIV7Data (iv7Data (ivRecords s' t))) \<and> isValid (ivRecords s' t)"
  proof (cases rule: transact_cases)
    case (stored report signature txId)
    from verifyAndStore_success(3,6) [OF this] assms show ?thesis by simp
  qed (use assms in simp_all)
  with s' show ?thesis by simp
qed

lemma run_valid:
  "\<forall>t\<in>set (allRecords (run e txs (constructor signer deployer))).
     fst (validateIV7Data (iv7Data (ivRecords (run e txs (constructor signer deployer)) t)))
     \<and> isValid (ivRecords (run e txs (constructor signer deployer)) t)"
proof (induction txs rule: rev_induct)
  case Nil
  show ?case by (simp add: run_Nil constructor_def)
next
  case (snoc tx txs)
  then show ?case unfolding run_snoc by (rule transact_valid)
qed

text \<open>Every other transaction id still reads as the zero record.\<close>

lemma transact_absent:
  assumes "\<forall>t. t \<notin> set (allRecords s) \<longrightarrow> ivRecords s t = zeroRecord"
  shows "\<forall>t. t \<notin> set (allRecords (transact e tx s)) \<longrightarrow> ivRecords (transact e tx s) t = zeroRecord"
proof -
  obtain s' where s': "transact e tx s = s'" by simp
  from s' have "\<forall>t. t \<notin> set (allRecords s') \<longrightarrow> ivRecords s' t = zeroRecord"
  proof (cases rule: transact_cases)
    case (stored report signature txId)
    from verifyAndStore_success(6) [OF this] assms show ?thesis by simp
  qed (use assms in simp_all)
  with s' show ?thesis by simp
qed

lemma run_absent:
  "\<forall>t. t \<notin> set (allRecords (run e txs (constructor signer deployer)))
       \<longrightarrow> ivRecords (run e txs (constructor signer deployer)) t = zeroRecord"
proof (induction txs rule: rev_induct)
  case Nil
  show ?case by (simp add: run_Nil constructor_def)
next
  case (snoc tx txs)
  then show ?case unfolding run_snoc by (rule transact_absent)
qed

subsection \<open>verifyChainIntegrity\<close>

lemma integrity_fold:
  "fold (integrity_step s) is acc
     = acc + length (filter (\<lambda>i. \<not> fst (validateIV7Data (iv7Data (ivRecords s (allRecords s ! i))))) is)"
  by (induction "is" arbitrary: acc) (auto simp: integrity_step_def Let_def)

lemma filter_nth_upt: "length (filter (\<lambda>i. P (xs ! i)) [0..<length xs]) = length (filter P xs)"
proof -
  have "filter (\<lambda>i. P (xs ! i)) [0..<length xs] = filter (P \<circ> (!) xs) [0..<length xs]"
    by (simp add: comp_def)
  then have "length (filter (\<lambda>i. P (xs ! i)) [0..<length xs])
      = length (filter P (map ((!) xs) [0..<length xs]))"
    by (simp only: filter_map length_map)
  then show ?thesis by (simp only: map_nth)
qed

lemma invalidCount_eq:
  "fold (integrity_step s) [0..<length (allRecords s)] 0
     = length (filter (\<lambda>t. \<not> fst (validateIV7Data (iv7Data (ivRecords s t)))) (allRecords s))"
  using filter_nth_upt [of "\<lambda>t. \<not> fst (validateIV7Data (iv7Data (ivRecords s t)))" "allRecords s"]
  by (simp add: integrity_fold)


lemma demo_store_first:
  "verifyAndStore demo_evm (demo_call 1000 50) (demo_report 21 generateFake7DVoiceprint 990) [1]
     (constructor 1 2)
   = Inr (71, run demo_evm
       [(demo_call 1000 50, VerifyAndStore (demo_report 21 generateFake7DVoiceprint 990) [1])]
       (constructor 1 2))"
  by (simp add: run_def transact_def verifyAndStore_def fresh_def demo_evm_def demo_call_def
      demo_report_def constructor_def generateFake7DVoiceprint_def validate_7)

lemma demo_ledger_allRecords: "allRecords demo_ledger = [71, 73]"
  by (simp add: demo_ledger_def run_def transact_def verifyAndStore_def fresh_def demo_evm_def
      demo_call_def demo_report_def constructor_def generateFake7DVoiceprint_def validate_7)

lemma demo_ledger_records:
  "ivRecords demo_ledger 71 =
     \<lparr>identity = ''test_user_1'', pubkey = 77, ivHash = 21,
      iv7Data = [1000, 1020, 980, 1015, 985, 1025, 990], timestamp = 990,
      blockNumber = 50, isValid = True\<rparr>"
  "ivRecords demo_ledger 73 =
     \<lparr>identity = ''test_user_1'', pubkey = 78, ivHash = 22,
      iv7Data = [1000, 1020, 980, 1015, 985, 1025, 990], timestamp = 1000,
      blockNumber = 51, isValid = True\<rparr>"
  by (simp_all add: demo_ledger_def run_def transact_def verifyAndStore_def fresh_def demo_evm_def
      demo_call_def demo_report_def constructor_def generateFake7DVoiceprint_def validate_7)

lemma verifyChainIntegrity_count:
  "verifyChainIntegrity s =
     (let n = length (filter (\<lambda>t. \<not> fst (validateIV7Data (iv7Data (ivRecords s t)))) (allRecords s))
      in if n > 0 then (False, n, ''Invalid voiceprints detected in chain'')
         else (True, 0, ''All voiceprints valid''))"
  by (simp only: verifyChainIntegrity_def invalidCount_eq)


section \<open>The claims\<close>

text \<open>
  C1 (as amended). A stored record carries no hash of its predecessor: a successful
  \<open>verifyAndStore\<close> appends the new transaction id to \<open>allRecords\<close> and stores under it
  the fields of the report, \<open>block.number\<close> and \<open>isValid = true\<close>, whatever the ledger held
  before. \<open>verifyChainIntegrity\<close> walks \<open>allRecords\<close> in ascending index order and re-runs
  \<open>validateIV7Data\<close> on each stored vector; its answer is the number of vectors that fail,
  and the chain is valid when that number is 0. It recomputes no hash and checks no link.
\<close>

theorem stored_record_has_no_link:
  "(verifyAndStore e c report signature s = Inr (txId, s') \<longrightarrow>
      allRecords s' = allRecords s @ [txId]
      \<and> ivRecords s' txId =
          \<lparr>identity = report_identity report, pubkey = report_pubkey report,
           ivHash = report_ivHash report, iv7Data = report_iv7Data report,
           timestamp = report_timestamp report, blockNumber = block_number c,
           isValid = True\<rparr>)
   \<and> verifyChainIntegrity l =
       (let n = length (filter (\<lambda>t. \<not> fst (validateIV7Data (iv7Data (ivRecords l t))))
                         (allRecords l))
        in if n > 0 then (False, n, ''Invalid voiceprints detected in chain'')
           else (True, 0, ''All voiceprints valid''))"
proof -
  have "allRecords s' = allRecords s @ [txId]
      \<and> ivRecords s' txId =
          \<lparr>identity = report_identity report, pubkey = report_pubkey report,
           ivHash = report_ivHash report, iv7Data = report_iv7Data report,
           timestamp = report_timestamp report, blockNumber = block_number c,
           isValid = True\<rparr>"
    if "verifyAndStore e c report signature s = Inr (txId, s')"
    using verifyAndStore_success(6) [OF that] by simp
  then show ?thesis
    using verifyChainIntegrity_count [of l] by blast
qed

theorem stored_record_has_no_link_witness:
  "verifyAndStore demo_evm (demo_call 1000 50) (demo_report 21 generateFake7DVoiceprint 990) [1]
     (constructor 1 2)
   = Inr (71, run demo_evm
       [(demo_call 1000 50, VerifyAndStore (demo_report 21 generateFake7DVoiceprint 990) [1])]
       (constructor 1 2))
   \<and> allRecords (run demo_evm
       [(demo_call 1000 50, VerifyAndStore (demo_report 21 generateFake7DVoiceprint 990) [1])]
       (constructor 1 2)) = [71]
   \<and> ivRecords (run demo_evm
       [(demo_call 1000 50, VerifyAndStore (demo_report 21 generateFake7DVoiceprint 990) [1])]
       (constructor 1 2)) 71
     = \<lparr>identity = ''test_user_1'', pubkey = 77, ivHash = 21,
        iv7Data = [1000, 1020, 980, 1015, 985, 1025, 990], timestamp = 990,
        blockNumber = 50, isValid = True\<rparr>"
  using demo_store_first
    stored_record_has_no_link [of demo_evm "demo_call 1000 50" "demo_report 21 generateFake7DVoiceprint 990" "[1]"
        "constructor 1 2" 71
        "run demo_evm
          [(demo_call 1000 50, VerifyAndStore (demo_report 21 generateFake7DVoiceprint 990) [1])]
          (constructor 1 2)"]
  by (simp add: demo_call_def demo_report_def constructor_def generateFake7DVoiceprint_def)

text \<open>
  C1 as stated fails on \<open>demo_ledger\<close>: its second record (id 73) stores, in its two
  hash-typed fields, neither the id of the first record (71) nor a hash the first record
  stores, and the verifier accepts the ledger; it accepts it as well after every field of
  the first record but the vector has been overwritten.
\<close>

theorem predecessor_hash_counterexample:
  "allRecords demo_ledger = [71, 73]
   \<and> pubkey (ivRecords demo_ledger 73) = 78 \<and> ivHash (ivRecords demo_ledger 73) = 22
   \<and> pubkey (ivRecords demo_ledger 71) = 77 \<and> ivHash (ivRecords demo_ledger 71) = 21
   \<and> set [pubkey (ivRecords demo_ledger 73), ivHash (ivRecords demo_ledger 73)]
       \<inter> set [71, pubkey (ivRecords demo_ledger 71), ivHash (ivRecords demo_ledger 71)] = {}
   \<and> verifyChainIntegrity demo_ledger = (True, 0, ''All voiceprints valid'')
   \<and> verifyChainIntegrity
       (demo_ledger\<lparr>ivRecords := (ivRecords demo_ledger)
          (71 := (ivRecords demo_ledger 71)\<lparr>identity := ''mallory'', pubkey := 0, ivHash := 0,
                                            timestamp := 0, blockNumber := 0\<rparr>)\<rparr>)
       = (True, 0, ''All voiceprints valid'')"
  by (simp add: verifyChainIntegrity_def integrity_step_def demo_ledger_allRecords
      demo_ledger_records validate_7)


text \<open>
  C2 (as amended). \<open>verifyAndStore\<close> checks freshness, then the duplicate hash, then runs
  the validator, and checks the oracle signature last: a fresh report with an unused hash
  and a vector the validator rejects fails with \<open>Validation failed: \<close> and the validator's
  reason, whatever its signature; the invalid-signature error is returned exactly for a
  fresh report with an unused hash and an accepted vector whose signature recovers to an
  address other than \<open>oracleSigner\<close>.
\<close>

theorem validation_precedes_signature:
  "(fresh c report s \<and> \<not> usedIvHash s (report_ivHash report)
      \<and> \<not> fst (validateIV7Data (report_iv7Data report))
    \<longrightarrow> verifyAndStore e c report signature s
          = Inl (Revert (''Validation failed: '' @ snd (validateIV7Data (report_iv7Data report)))))
   \<and> (verifyAndStore e c report signature s = Inl (Revert ''Invalid oracle signature'')
      \<longleftrightarrow> fresh c report s \<and> \<not> usedIvHash s (report_ivHash report)
          \<and> fst (validateIV7Data (report_iv7Data report))
          \<and> (\<exists>signer. recover e (hashTypedDataV4 e report) signature = Some signer
                \<and> signer \<noteq> oracleSigner s))"
  by (auto simp: verifyAndStore_def Let_def split: prod.splits option.splits)

theorem validation_precedes_signature_witness:
  "fresh (demo_call 1000 50) (demo_report 21 generateMonotonicVoiceprint 990) (constructor 1 2)
   \<and> \<not> usedIvHash (constructor 1 2) (report_ivHash (demo_report 21 generateMonotonicVoiceprint 990))
   \<and> \<not> fst (validateIV7Data (report_iv7Data (demo_report 21 generateMonotonicVoiceprint 990)))
   \<and> verifyAndStore demo_evm (demo_call 1000 50) (demo_report 21 generateMonotonicVoiceprint 990) [9]
       (constructor 1 2)
       = Inl (Revert (''Validation failed: '' @ snd (validateIV7Data
            (report_iv7Data (demo_report 21 generateMonotonicVoiceprint 990)))))"
  using validation_precedes_signature [of "demo_call 1000 50" "demo_report 21 generateMonotonicVoiceprint 990"
      "constructor 1 2" demo_evm "[9]"]
  by (simp add: fresh_def demo_call_def demo_report_def constructor_def
      generateMonotonicVoiceprint_def validate_monotonic)

text \<open>
  C2 as stated fails: the monotonic vector under a signature of address 9, where the
  oracle signer is address 1, is rejected with the validator's reason, not with the
  invalid-signature error.
\<close>

theorem signature_checked_first_counterexample:
  "verifyAndStore demo_evm (demo_call 1000 50) (demo_report 21 generateMonotonicVoiceprint 990) [9]
     (constructor 1 2)
     = Inl (Revert ''Validation failed: Variance too high - values too scattered'')
   \<and> recover demo_evm (hashTypedDataV4 demo_evm (demo_report 21 generateMonotonicVoiceprint 990)) [9]
       = Some 9
   \<and> oracleSigner (constructor 1 2) = 1"
  by (simp add: verifyAndStore_def fresh_def demo_evm_def
      demo_call_def demo_report_def constructor_def generateMonotonicVoiceprint_def validate_monotonic)

text \<open>
  C3 (as amended). \<open>getRecord\<close> never fails. In every storage the contract can reach, a
  transaction id that is not in the ledger reads as the zero record (empty identity, zero
  hashes, seven zeros, \<open>isValid = false\<close>), and an id in the ledger never does.
\<close>

theorem getRecord_absent_is_zero_record:
  "(txId \<notin> set (allRecords (run e txs (constructor signer deployer)))
      \<longrightarrow> getRecord (run e txs (constructor signer deployer)) txId = Inr zeroRecord)
   \<and> (txId \<in> set (allRecords (run e txs (constructor signer deployer)))
      \<longrightarrow> getRecord (run e txs (constructor signer deployer)) txId \<noteq> Inr zeroRecord)"
proof -
  let ?s = "run e txs (constructor signer deployer)"
  have "txId \<in> set (allRecords ?s) \<longrightarrow> isValid (ivRecords ?s txId)"
    using run_valid [of e txs signer deployer] by blast
  moreover have "\<not> isValid zeroRecord" by (simp add: zeroRecord_def)
  ultimately have "txId \<in> set (allRecords ?s) \<longrightarrow> ivRecords ?s txId \<noteq> zeroRecord" by auto
  then show ?thesis
    using run_absent [of e txs signer deployer] by (simp add: getRecord_def)
qed

theorem getRecord_absent_is_zero_record_witness:
  "99 \<notin> set (allRecords demo_ledger) \<and> getRecord demo_ledger 99 = Inr zeroRecord
   \<and> 71 \<in> set (allRecords demo_ledger) \<and> getRecord demo_ledger 71 \<noteq> Inr zeroRecord"
  using getRecord_absent_is_zero_record [of 99 demo_evm
      "[(demo_call 1000 50, VerifyAndStore (demo_report 21 generateFake7DVoiceprint 990) [1]),
        (demo_call 1010 51, VerifyAndStore (demo_report 22 generateFake7DVoiceprint 1000) [1])]" 1 2]
    getRecord_absent_is_zero_record [of 71 demo_evm
      "[(demo_call 1000 50, VerifyAndStore (demo_report 21 generateFake7DVoiceprint 990) [1]),
        (demo_call 1010 51, VerifyAndStore (demo_report 22 generateFake7DVoiceprint 1000) [1])]" 1 2]
  unfolding demo_ledger_def [symmetric]
  by (simp add: demo_ledger_allRecords)

text \<open>
  C3 as stated fails: the id 99 is not in \<open>demo_ledger\<close>, and looking it up returns a
  record, not an error.
\<close>

theorem getRecord_not_found_counterexample:
  "99 \<notin> set (allRecords demo_ledger) \<and> getRecord demo_ledger 99 = Inr zeroRecord
   \<and> \<not> isl (getRecord demo_ledger 99)"
  by (simp add: demo_ledger_allRecords getRecord_def demo_ledger_def run_def transact_def
      verifyAndStore_def fresh_def demo_evm_def
      demo_call_def demo_report_def constructor_def generateFake7DVoiceprint_def validate_7)

text \<open>
  C4 (as amended). For a 7-vector that passes the range and the spread check, the
  variance the validator computes is the population variance of the stored values with
  both divisions truncated, and the variance check lets the vector through exactly when
  that variance lies between \<open>MIN_VARIANCE = 50\<close> and \<open>MAX_VARIANCE = 1200\<close> in stored
  units, which is between 0.00005 and 0.0012 in real units; below 50 the result is the
  too-low reason, above 1200 the too-high reason.
\<close>

theorem variance_check_bounds:
  assumes "length iv = 7" and "\<not> out_of_range iv" and "range_of iv \<le> MAX_RANGE"
  shows "int (variance_of iv) = population_variance iv
    \<and> (variance_of iv < 50 \<longrightarrow>
         validateIV7Data iv = (False, ''Variance too low - values too similar''))
    \<and> (variance_of iv > 1200 \<longrightarrow>
         validateIV7Data iv = (False, ''Variance too high - values too scattered''))
    \<and> (snd (validateIV7Data iv) \<noteq> ''Variance too low - values too similar'' \<and>
        snd (validateIV7Data iv) \<noteq> ''Variance too high - values too scattered''
        \<longleftrightarrow> 50 \<le> variance_of iv \<and> variance_of iv \<le> 1200)
    \<and> (50 \<le> variance_of iv \<and> variance_of iv \<le> 1200
        \<longleftrightarrow> 5 / 100000 \<le> variance_units (variance_of iv)
            \<and> variance_units (variance_of iv) \<le> 12 / 10000)"
proof -
  have pop: "int (variance_of iv) = population_variance iv"
    using assms(1) by (rule variance_of_population)
  have low: "validateIV7Data iv = (False, ''Variance too low - values too similar'')"
    if "variance_of iv < 50"
    using assms that by (simp add: validateIV7Data_def MIN_VARIANCE_def)
  have high: "validateIV7Data iv = (False, ''Variance too high - values too scattered'')"
    if "variance_of iv > 1200"
    using assms that by (simp add: validateIV7Data_def MIN_VARIANCE_def MAX_VARIANCE_def)
  have pass: "snd (validateIV7Data iv) \<noteq> ''Variance too low - values too similar'' \<and>
        snd (validateIV7Data iv) \<noteq> ''Variance too high - values too scattered''
        \<longleftrightarrow> 50 \<le> variance_of iv \<and> variance_of iv \<le> 1200"
    using assms by (simp add: validateIV7Data_def MIN_VARIANCE_def MAX_VARIANCE_def)
  have real_units: "50 \<le> variance_of iv \<and> variance_of iv \<le> 1200
        \<longleftrightarrow> 5 / 100000 \<le> variance_units (variance_of iv)
            \<and> variance_units (variance_of iv) \<le> 12 / 10000"
    using variance_units_bounds [of "variance_of iv"]
    by (simp only: MIN_VARIANCE_def MAX_VARIANCE_def)
  from pop low high pass real_units show ?thesis by blast
qed

theorem variance_check_bounds_witness:
  "length generateFake7DVoiceprint = 7 \<and> \<not> out_of_range generateFake7DVoiceprint
   \<and> range_of generateFake7DVoiceprint \<le> MAX_RANGE
   \<and> int (variance_of generateFake7DVoiceprint) = population_variance generateFake7DVoiceprint
   \<and> 50 \<le> variance_of generateFake7DVoiceprint \<and> variance_of generateFake7DVoiceprint \<le> 1200
   \<and> 5 / 100000 \<le> variance_units (variance_of generateFake7DVoiceprint)
   \<and> variance_units (variance_of generateFake7DVoiceprint) \<le> 12 / 10000
   \<and> snd (validateIV7Data generateFake7DVoiceprint) \<noteq> ''Variance too low - values too similar''
   \<and> snd (validateIV7Data generateFake7DVoiceprint) \<noteq> ''Variance too high - values too scattered''
   \<and> variance_of [1000, 1000, 1000, 1000, 1001, 1002, 1003] < 50
   \<and> validateIV7Data [1000, 1000, 1000, 1000, 1001, 1002, 1003]
       = (False, ''Variance too low - values too similar'')
   \<and> variance_of generateMonotonicVoiceprint > 1200
   \<and> validateIV7Data generateMonotonicVoiceprint
       = (False, ''Variance too high - values too scattered'')"
  using variance_check_bounds [of generateFake7DVoiceprint]
    variance_check_bounds [of "[1000, 1000, 1000, 1000, 1001, 1002, 1003]"]
    variance_check_bounds [of generateMonotonicVoiceprint]
  by (simp add: generateFake7DVoiceprint_def generateMonotonicVoiceprint_def facts_fake
      facts_similar facts_mono MAX_RANGE_def)

text \<open>
  C4 as stated fails. The vector \<open>[1000,1020,980,1015,985,1025,990]\<close> passes the range and
  the spread check and has the truncated variance 277, which is 0.000277 in real units and
  so below 0.05, yet the validator accepts it. The vector \<open>[100,200,300,400,500,600,700]\<close>
  has the variance 40000, which is 0.04 in real units and so below 1.2, yet it is
  rejected with the too-high reason.
\<close>

theorem variance_real_units_counterexample:
  "\<not> out_of_range generateFake7DVoiceprint
   \<and> range_of generateFake7DVoiceprint \<le> MAX_RANGE
   \<and> variance_of generateFake7DVoiceprint = 277
   \<and> variance_units (variance_of generateFake7DVoiceprint) < 5 / 100
   \<and> validateIV7Data generateFake7DVoiceprint = (True, [])
   \<and> \<not> out_of_range generateMonotonicVoiceprint
   \<and> range_of generateMonotonicVoiceprint \<le> MAX_RANGE
   \<and> variance_of generateMonotonicVoiceprint = 40000
   \<and> variance_units (variance_of generateMonotonicVoiceprint) \<le> 12 / 10
   \<and> validateIV7Data generateMonotonicVoiceprint
       = (False, ''Variance too high - values too scattered'')"
  by (simp add: generateFake7DVoiceprint_def generateMonotonicVoiceprint_def facts_fake
      facts_mono validate_7 validate_monotonic MAX_RANGE_def variance_units_def)

text \<open>
  C5. The validator rejects \<open>[100,200,300,400,500,600,700]\<close>, which is monotonic
  increasing, with the variance-too-high reason; and every 7-vector in range and in spread
  whose variance exceeds the maximum gets that reason, monotonic or not.
\<close>

theorem variance_reported_before_monotonic:
  "validateIV7Data [100, 200, 300, 400, 500, 600, 700]
     = (False, ''Variance too high - values too scattered'')
   \<and> fst (mono_flags [100, 200, 300, 400, 500, 600, 700])
   \<and> (length iv = 7 \<and> \<not> out_of_range iv \<and> range_of iv \<le> MAX_RANGE
        \<and> variance_of iv > MAX_VARIANCE
      \<longrightarrow> validateIV7Data iv = (False, ''Variance too high - values too scattered''))"
  by (simp add: facts_mono validateIV7Data_def MAX_RANGE_def MAX_VARIANCE_def MIN_VARIANCE_def)

theorem variance_reported_before_monotonic_witness:
  "length generateMonotonicVoiceprint = 7 \<and> \<not> out_of_range generateMonotonicVoiceprint
   \<and> range_of generateMonotonicVoiceprint \<le> MAX_RANGE
   \<and> variance_of generateMonotonicVoiceprint > MAX_VARIANCE
   \<and> fst (mono_flags generateMonotonicVoiceprint)
   \<and> validateIV7Data generateMonotonicVoiceprint
       = (False, ''Variance too high - values too scattered'')"
  using variance_reported_before_monotonic [of generateMonotonicVoiceprint]
  by (simp add: generateMonotonicVoiceprint_def facts_mono MAX_RANGE_def MAX_VARIANCE_def)

text \<open>
  C6. The validator accepts \<open>[1000,1020,980,1015,985,1025,990]\<close> with the empty reason.
\<close>

theorem reference_vector_accepted:
  "validateIV7Data [1000, 1020, 980, 1015, 985, 1025, 990] = (True, [])"
  by (rule validate_7)

text \<open>
  C7. A 7-vector with an element below 10 or above 3000 is rejected with the
  out-of-range reason, whatever its other elements: no other reason is reported for it.
\<close>

theorem out_of_range_rejected_first:
  assumes "length iv = 7" and "i < 7" and "iv ! i < 10 \<or> iv ! i > 3000"
  shows "validateIV7Data iv = (False, ''Value outside valid range'')"
proof -
  have "out_of_range iv"
    using assms(2,3) by (auto simp: out_of_range_iff MIN_VALUE_def MAX_VALUE_def)
  then show ?thesis by (simp add: validateIV7Data_def)
qed

theorem out_of_range_rejected_first_witness:
  "length generateBadVoiceprint = 7 \<and> (1::nat) < 7
   \<and> (generateBadVoiceprint ! 1 < 10 \<or> generateBadVoiceprint ! 1 > 3000)
   \<and> validateIV7Data generateBadVoiceprint = (False, ''Value outside valid range'')
   \<and> validateIV7Data [5, 800, 1500, 900, 1100, 1300, 1000] = (False, ''Value outside valid range'')"
  using out_of_range_rejected_first [of generateBadVoiceprint 1]
    out_of_range_rejected_first [of "[5, 800, 1500, 900, 1100, 1300, 1000]" 0]
  by (simp add: generateBadVoiceprint_def)

text \<open>
  C8 (as amended). Once a \<open>verifyAndStore\<close> with the hash \<open>h\<close> has succeeded, every later
  call whose report carries \<open>h\<close> fails, after any transactions in between and whatever the
  other fields, the caller and the signature: with the duplicate error when the report
  passes the freshness check, and with the stale error, which is checked first, when it
  does not.
\<close>

theorem used_ivHash_rejected:
  assumes "verifyAndStore e c report signature s = Inr (txId, s')"
    and "report_ivHash report' = report_ivHash report"
  shows "verifyAndStore e c' report' signature' (run e txs s')
           = Inl (Revert (if fresh c' report' (run e txs s')
                          then ''IV hash already used'' else ''Report too stale''))"
proof -
  have "usedIvHash s' (report_ivHash report)"
    using verifyAndStore_success(6) [OF assms(1)] by simp
  then have "usedIvHash (run e txs s') (report_ivHash report')"
    using assms(2) by (simp add: run_usedIvHash)
  then show ?thesis by (simp add: verifyAndStore_def)
qed

theorem used_ivHash_rejected_witness:
  "verifyAndStore demo_evm (demo_call 1000 50) (demo_report 21 generateFake7DVoiceprint 990) [1]
     (constructor 1 2)
   = Inr (71, run demo_evm
       [(demo_call 1000 50, VerifyAndStore (demo_report 21 generateFake7DVoiceprint 990) [1])]
       (constructor 1 2))
   \<and> verifyAndStore demo_evm (demo_call 1010 51) (demo_report 21 generateMonotonicVoiceprint 1005) [9]
       (run demo_evm [(demo_call 1005 51, UpdateMaxStaleness 30)]
         (run demo_evm
           [(demo_call 1000 50, VerifyAndStore (demo_report 21 generateFake7DVoiceprint 990) [1])]
           (constructor 1 2)))
     = Inl (Revert ''IV hash already used'')"
proof -
  have first: "verifyAndStore demo_evm (demo_call 1000 50) (demo_report 21 generateFake7DVoiceprint 990) [1]
     (constructor 1 2)
   = Inr (71, run demo_evm
       [(demo_call 1000 50, VerifyAndStore (demo_report 21 generateFake7DVoiceprint 990) [1])]
       (constructor 1 2))"
    by (simp add: run_def transact_def verifyAndStore_def fresh_def demo_evm_def demo_call_def
      demo_report_def constructor_def generateFake7DVoiceprint_def validate_7)
  have same: "report_ivHash (demo_report 21 generateMonotonicVoiceprint 1005)
     = report_ivHash (demo_report 21 generateFake7DVoiceprint 990)"
    by (simp add: demo_report_def)
  have fr: "fresh (demo_call 1010 51) (demo_report 21 generateMonotonicVoiceprint 1005) s"
    if "maxStaleness s \<ge> 5" for s
    using that by (simp add: fresh_def demo_call_def demo_report_def)
  have "maxStaleness (run demo_evm [(demo_call 1005 51, UpdateMaxStaleness 30)]
         (run demo_evm
           [(demo_call 1000 50, VerifyAndStore (demo_report 21 generateFake7DVoiceprint 990) [1])]
           (constructor 1 2))) = 600"
    by (simp add: run_def transact_def verifyAndStore_def fresh_def demo_evm_def demo_call_def
      demo_report_def constructor_def generateFake7DVoiceprint_def validate_7
      updateMaxStaleness_def onlyOwner_def)
  then have "fresh (demo_call 1010 51) (demo_report 21 generateMonotonicVoiceprint 1005)
       (run demo_evm [(demo_call 1005 51, UpdateMaxStaleness 30)]
         (run demo_evm
           [(demo_call 1000 50, VerifyAndStore (demo_report 21 generateFake7DVoiceprint 990) [1])]
           (constructor 1 2)))"
    by (intro fr) simp
  with used_ivHash_rejected [OF first same, of "demo_call 1010 51" "[9]" "[(demo_call 1005 51, UpdateMaxStaleness 30)]"]
    first
  show ?thesis by simp
qed


text \<open>
  C8 as stated fails: after the hash 21 has been stored, a report with the same hash and
  a timestamp in the future is rejected with the stale error, not the duplicate error.
\<close>

theorem duplicate_error_counterexample:
  "verifyAndStore demo_evm (demo_call 1000 50) (demo_report 21 generateFake7DVoiceprint 990) [1]
     (constructor 1 2)
   = Inr (71, run demo_evm
       [(demo_call 1000 50, VerifyAndStore (demo_report 21 generateFake7DVoiceprint 990) [1])]
       (constructor 1 2))
   \<and> verifyAndStore demo_evm (demo_call 1010 51) (demo_report 21 generateFake7DVoiceprint 2000) [1]
       (run demo_evm
         [(demo_call 1000 50, VerifyAndStore (demo_report 21 generateFake7DVoiceprint 990) [1])]
         (constructor 1 2))
     = Inl (Revert ''Report too stale'')"
  by (simp add: run_def transact_def verifyAndStore_def fresh_def demo_evm_def demo_call_def
      demo_report_def constructor_def generateFake7DVoiceprint_def validate_7)

text \<open>
  C9. From a fresh deployment, after any sequence of transactions (calls of
  \<open>verifyAndStore\<close> that succeed or revert, updates by the owner), \<open>verifyChainIntegrity\<close>
  answers valid with an invalid count of 0, and every record listed in the ledger holds a
  vector that passes \<open>validateIV7Data\<close>.
\<close>

theorem chain_integrity_after_stores:
  "verifyChainIntegrity (run e txs (constructor signer deployer)) = (True, 0, ''All voiceprints valid'')
   \<and> list_all (\<lambda>txId. fst (validateIV7Data (iv7Data (ivRecords (run e txs (constructor signer deployer)) txId))))
        (allRecords (run e txs (constructor signer deployer)))"
proof -
  let ?s = "run e txs (constructor signer deployer)"
  have valid: "\<forall>t\<in>set (allRecords ?s). fst (validateIV7Data (iv7Data (ivRecords ?s t)))"
    using run_valid [of e txs signer deployer] by blast
  then have "filter (\<lambda>t. \<not> fst (validateIV7Data (iv7Data (ivRecords ?s t)))) (allRecords ?s) = []"
    by (simp add: filter_empty_conv)
  then have "verifyChainIntegrity ?s = (True, 0, ''All voiceprints valid'')"
    by (simp add: verifyChainIntegrity_count)
  with valid show ?thesis by (simp add: list_all_iff)
qed

theorem chain_integrity_after_stores_witness:
  "allRecords demo_ledger = [71, 73]
   \<and> verifyChainIntegrity demo_ledger = (True, 0, ''All voiceprints valid'')
   \<and> list_all (\<lambda>txId. fst (validateIV7Data (iv7Data (ivRecords demo_ledger txId))))
        (allRecords demo_ledger)"
  using chain_integrity_after_stores [of demo_evm
      "[(demo_call 1000 50, VerifyAndStore (demo_report 21 generateFake7DVoiceprint 990) [1]),
        (demo_call 1010 51, VerifyAndStore (demo_report 22 generateFake7DVoiceprint 1000) [1])]" 1 2]
  unfolding demo_ledger_def [symmetric]
  by (simp add: demo_ledger_allRecords)

text \<open>
  C10. On a 7-vector the validator never answers with the too-many-alternations reason:
  a variance of at most 1200 keeps every element within 91 of the mean, hence every two
  neighbours within 182 of each other, so no pair is more than 1500 apart.
\<close>

theorem alternation_reason_unreachable:
  assumes "length iv = 7"
  shows "snd (validateIV7Data iv) \<noteq> ''Too many extreme value alternations''
   \<and> (variance_of iv \<le> MAX_VARIANCE \<longrightarrow>
        (\<forall>i<7. absdiff (iv ! i) (mean_of iv) \<le> 91)
      \<and> (\<forall>i<6. absdiff (iv ! i) (iv ! (i + 1)) \<le> 182)
      \<and> alternations_of iv = 0)"
proof -
  have "snd (validateIV7Data iv) \<noteq> ''Too many extreme value alternations''"
  proof (cases "variance_of iv \<le> MAX_VARIANCE")
    case True
    then have "alternations_of iv = 0" by (rule alternations_zero)
    then show ?thesis by (simp add: validateIV7Data_def MAX_ALTERNATIONS_def)
  next
    case False
    then show ?thesis by (simp add: validateIV7Data_def)
  qed
  then show ?thesis
    using deviation_le_91 adjacent_le_182 alternations_zero by blast
qed

theorem alternation_reason_unreachable_witness:
  "length generateFake7DVoiceprint = 7
   \<and> variance_of generateFake7DVoiceprint \<le> MAX_VARIANCE
   \<and> snd (validateIV7Data generateFake7DVoiceprint) \<noteq> ''Too many extreme value alternations''
   \<and> absdiff (generateFake7DVoiceprint ! 5) (mean_of generateFake7DVoiceprint) \<le> 91
   \<and> absdiff (generateFake7DVoiceprint ! 2) (generateFake7DVoiceprint ! 3) \<le> 182
   \<and> alternations_of generateFake7DVoiceprint = 0"
  using alternation_reason_unreachable [of generateFake7DVoiceprint]
  by (simp add: generateFake7DVoiceprint_def facts_fake MAX_VARIANCE_def mean_of_def stats_def
      stats_step_def upt7 absdiff_def)

end
